theory Spec2Isabelle
  imports Main
begin

section \<open>JavaScript values\<close>

text \<open>
  The values the dispatcher stores, compares and passes on. The variable \<open>error\<close> of
  \<open>webpackHotServerMiddleware\<close> holds \<open>false\<close>, a compilation error or a caught
  exception, so all three live in one type. A function value is its code (a number) with
  the values it closed over; an error object is its constructor's name and its message.
  Numbers are the integers and \<open>NaN\<close>: of a number the dispatcher only ever asks
  whether it is truthy.
\<close>

datatype jsval =
    Undefined
  | Null
  | Bool bool
  | Num int
  | NaN
  | Str string
  | Arr "jsval list"
  | Obj "(string \<times> jsval) list"
  | Fun nat "jsval list"
  | JSError string string

text \<open>ToBoolean, as \<open>if (error)\<close>, \<open>obj && ...\<close> and \<open>!multiCompiler\<close> apply it.\<close>

fun truthy :: "jsval \<Rightarrow> bool" where
  "truthy Undefined = False"
| "truthy Null = False"
| "truthy (Bool b) = b"
| "truthy (Num n) = (n \<noteq> 0)"
| "truthy NaN = False"
| "truthy (Str s) = (s \<noteq> [])"
| "truthy (Arr xs) = True"
| "truthy (Obj ps) = True"
| "truthy (Fun f env) = True"
| "truthy (JSError n m) = True"

text \<open>
  The \<open>TypeError\<close> the runtime throws (a property read of \<open>undefined\<close>, a call of a
  value that is no function, a path that is no string). The message is the runtime's and
  differs between its versions; nothing below depends on it.
\<close>

definition type_error :: "string \<Rightarrow> jsval" where
  "type_error msg = JSError ''TypeError'' msg"

text \<open>
  A property read \<open>obj.key\<close> of a value that is neither \<open>undefined\<close> nor \<open>null\<close>:
  the own properties of an object literal. Properties of functions, and names inherited
  from a prototype, are not modelled.
\<close>

fun get_prop :: "jsval \<Rightarrow> string \<Rightarrow> jsval" where
  "get_prop (Obj ps) k = (case map_of ps k of Some v \<Rightarrow> v | None \<Rightarrow> Undefined)"
| "get_prop v k = Undefined"

section \<open>The bundler's data\<close>

text \<open>
  \<open>stats.toJson()\<close> is an object whose field \<open>assetsByChunkName\<close> maps a chunk's name
  to the file it emitted, or to the list of files when it emitted several; the object's
  other fields (hash, timings, modules, ...) are kept as they are.
\<close>

datatype asset_entry = Single string | Multiple "string list"

record stats_json =
  assetsByChunkName :: "(string \<times> asset_entry) list"
  otherFields :: "(string \<times> jsval) list"

record compilation =
  name :: jsval
  errors :: "jsval list"

record stats =
  compilation :: compilation
  toJson :: stats_json

record multi_stats =
  stats :: "stats list"

text \<open>
  A compiler of the multi-compiler. Its output filesystem is an object whose contents the
  bundler rewrites on every build: the model keeps the object's identity here and its
  contents in the world below.
\<close>

record compiler =
  compiler_name :: jsval
  outputFileSystem :: nat
  outputPath :: string

text \<open>
  The first argument of \<open>webpackHotServerMiddleware\<close>, one of three:
  \<^item> a build controller: an object with a \<open>compilers\<close> array of compiler objects and
    the \<open>plugin\<close> method (the flag: constructed by \<open>MultiCompiler\<close>, or not);
  \<^item> any other object with a \<open>compilers\<close> array: constructed by \<open>MultiCompiler\<close> or
    not (the first flag), with a \<open>plugin\<close> method or without (the second flag), its
    elements compiler objects or, written \<open>None\<close>, \<open>null\<close> or \<open>undefined\<close>;
  \<^item> a value with no \<open>compilers\<close> array (a primitive, a plain object, a single
    compiler).
  Of an element the constructor reads \<open>name\<close>, \<open>outputFileSystem\<close> and
  \<open>outputPath\<close>; an element that lacks one of them has \<open>undefined\<close> there, which the
  constructor does not look at.
\<close>

datatype multi_compiler =
    WithCompilers bool "compiler list"
  | OtherCompilers bool bool "compiler option list"
  | NoCompilers jsval

text \<open>The stats object as the JavaScript value that \<open>toJson()\<close> hands out.\<close>

fun js_of_entry :: "asset_entry \<Rightarrow> jsval" where
  "js_of_entry (Single s) = Str s"
| "js_of_entry (Multiple xs) = Arr (map Str xs)"

definition js_of_manifest :: "(string \<times> asset_entry) list \<Rightarrow> jsval" where
  "js_of_manifest m = Obj (map (\<lambda>(k, e). (k, js_of_entry e)) m)"

definition js_of_stats_json :: "stats_json \<Rightarrow> jsval" where
  "js_of_stats_json j =
     Obj ((''assetsByChunkName'', js_of_manifest (assetsByChunkName j)) # otherFields j)"

section \<open>The collaborators\<close>

text \<open>
  What the dispatcher calls and does not define: \<open>path.join\<close> on two strings, the
  contents of an output filesystem at the time of a build (\<open>readFileSync\<close> followed by
  \<open>toString\<close>: the file's text, or the exception thrown), \<open>requireFromString\<close> (the
  module's exports, or the exception its evaluation throws) and the bodies of the
  function values (the value returned, or the exception thrown).
\<close>

record world =
  path_join2 :: "string \<Rightarrow> string \<Rightarrow> string"
  readFileSync :: "nat \<Rightarrow> string \<Rightarrow> jsval + string"
  requireFromString :: "string \<Rightarrow> string \<Rightarrow> jsval + jsval"
  fun_body :: "nat \<Rightarrow> jsval list \<Rightarrow> jsval list \<Rightarrow> jsval + jsval"

text \<open>
  \<open>path.join(outputPath, x)\<close> where \<open>x\<close> is a string or \<open>undefined\<close>: the runtime
  checks that every argument is a string before it joins anything.
\<close>

definition path_join :: "world \<Rightarrow> string \<Rightarrow> string option \<Rightarrow> jsval + string" where
  "path_join w dir x =
     (case x of
        None \<Rightarrow> Inl (type_error ''Path must be a string. Received undefined'')
      | Some file \<Rightarrow> Inr (path_join2 w dir file))"

text \<open>A call \<open>f(args)\<close>.\<close>

definition js_call :: "world \<Rightarrow> jsval \<Rightarrow> jsval list \<Rightarrow> jsval + jsval" where
  "js_call w f args =
     (case f of
        Fun code env \<Rightarrow> fun_body w code env args
      | _ \<Rightarrow> Inl (type_error ''is not a function''))"

section \<open>The module\<close>

record options =
  chunkName :: string

definition DEFAULTS :: options where
  "DEFAULTS = \<lparr>chunkName = ''main''\<rparr>"

text \<open>
  \<open>Object.assign({}, DEFAULTS, options)\<close>: the caller's \<open>chunkName\<close> when the options
  object has one (\<open>None\<close>: no options, or none with that key).
\<close>

definition assign_options :: "options \<Rightarrow> string option \<Rightarrow> options" where
  "assign_options defaults given =
     (case given of None \<Rightarrow> defaults | Some c \<Rightarrow> defaults\<lparr>chunkName := c\<rparr>)"

definition interopRequireDefault :: "jsval \<Rightarrow> jsval" where
  "interopRequireDefault obj =
     (if truthy obj \<and> truthy (get_prop obj ''__esModule'') then get_prop obj ''default'' else obj)"

text \<open>
  \<open>compilers.find(compiler => compiler.name === name)\<close> over elements that may be
  \<open>null\<close> or \<open>undefined\<close>: the callback throws at the first such element it visits,
  and it visits the elements in order until one matches.
\<close>

fun find_named :: "compiler option list \<Rightarrow> string \<Rightarrow> jsval + compiler option" where
  "find_named [] n = Inr None"
| "find_named (None # rest) n = Inl (type_error ''Cannot read property name of undefined'')"
| "find_named (Some c # rest) n =
     (if compiler_name c = Str n then Inr (Some c) else find_named rest n)"

text \<open>
  \<open>multiCompiler.compilers.find(...)\<close>: the first compiler of that name or
  \<open>undefined\<close>; a \<open>TypeError\<close> when there is no \<open>compilers\<close> array to search.
\<close>

definition findCompiler :: "multi_compiler \<Rightarrow> string \<Rightarrow> jsval + compiler option" where
  "findCompiler multiCompiler n =
     (case multiCompiler of
        WithCompilers inst compilers \<Rightarrow> Inr (find (\<lambda>c. compiler_name c = Str n) compilers)
      | OtherCompilers inst plugin elements \<Rightarrow> find_named elements n
      | NoCompilers v \<Rightarrow> Inl (type_error ''Cannot read property find of undefined''))"

definition findStats :: "multi_stats \<Rightarrow> string \<Rightarrow> stats option" where
  "findStats multiStats n = find (\<lambda>s. name (compilation s) = Str n) (stats multiStats)"

text \<open>The regular expression \<open>/\.js$/\<close>: the string ends in \<open>.js\<close>.\<close>

definition test_js :: "string \<Rightarrow> bool" where
  "test_js asset = (drop (length asset - 3) asset = ''.js'')"

text \<open>
  \<open>assetsByChunkName[chunkName]\<close>. The manifest is a plain object, so a name that is
  no key of its own may still be found on \<open>Object.prototype\<close>: the member read is then
  one of the prototype's functions (for \<open>__proto__\<close>, the prototype itself).
\<close>

definition object_prototype_names :: "string list" where
  "object_prototype_names =
     [''constructor'', ''hasOwnProperty'', ''isPrototypeOf'', ''propertyIsEnumerable'',
      ''toLocaleString'', ''toString'', ''valueOf'', ''__proto__'', ''__defineGetter__'',
      ''__defineSetter__'', ''__lookupGetter__'', ''__lookupSetter__'']"

datatype member = Own asset_entry | Inherited | Absent

definition member_of :: "(string \<times> asset_entry) list \<Rightarrow> string \<Rightarrow> member" where
  "member_of assets chunk =
     (case map_of assets chunk of
        Some entry \<Rightarrow> Own entry
      | None \<Rightarrow> if chunk \<in> set object_prototype_names then Inherited else Absent)"

text \<open>
  \<open>... || ''\<close>: \<open>undefined\<close> and the empty string give the empty string; an array,
  empty or not, and an inherited member are truthy and stay.
\<close>

fun or_empty :: "member \<Rightarrow> member" where
  "or_empty Absent = Own (Single '''')"
| "or_empty (Own (Single s)) = (if s \<noteq> [] then Own (Single s) else Own (Single ''''))"
| "or_empty (Own (Multiple xs)) = Own (Multiple xs)"
| "or_empty Inherited = Inherited"

text \<open>
  An inherited member is neither an array nor a string: it goes to \<open>path.join\<close> as it
  is, and \<open>path.join\<close> refuses it.
\<close>

definition getChunkFilename :: "world \<Rightarrow> stats \<Rightarrow> string \<Rightarrow> string \<Rightarrow> jsval + string" where
  "getChunkFilename w st outPath chunk =
     (let assets = assetsByChunkName (toJson st);
          filename = or_empty (member_of assets chunk)
      in case filename of
           Own (Multiple xs) \<Rightarrow> path_join w outPath (find test_js xs)
         | Own (Single s) \<Rightarrow> path_join w outPath (Some s)
         | Inherited \<Rightarrow> Inl (type_error ''Path must be a string. Received a function'')
         | Absent \<Rightarrow> path_join w outPath None)"

subsection \<open>The middleware and its two variables\<close>

text \<open>
  What the closures of \<open>webpackHotServerMiddleware\<close> share: the server compiler (for
  \<open>outputFs\<close> and \<open>outputPath\<close>), the options, and the variables \<open>serverRenderer\<close>
  and \<open>error\<close>, which only the \<open>done\<close> handler assigns.
\<close>

record dispatcher =
  serverCompiler :: compiler
  options :: options
  serverRenderer :: jsval
  error :: jsval

definition outputFs :: "dispatcher \<Rightarrow> nat" where
  "outputFs d = outputFileSystem (serverCompiler d)"

text \<open>
  \<open>!multiCompiler instanceof MultiCompiler\<close> is \<open>(!multiCompiler) instanceof MultiCompiler\<close>:
  the negation binds tighter, and its result is a boolean.
\<close>

fun truthy_arg :: "multi_compiler \<Rightarrow> bool" where
  "truthy_arg (WithCompilers inst compilers) = True"
| "truthy_arg (OtherCompilers inst plugin elements) = True"
| "truthy_arg (NoCompilers v) = truthy v"

definition js_not :: "multi_compiler \<Rightarrow> multi_compiler" where
  "js_not v = NoCompilers (Bool (\<not> truthy_arg v))"

fun instanceof_MultiCompiler :: "multi_compiler \<Rightarrow> bool" where
  "instanceof_MultiCompiler (WithCompilers inst compilers) = inst"
| "instanceof_MultiCompiler (OtherCompilers inst plugin elements) = inst"
| "instanceof_MultiCompiler (NoCompilers v) = False"

text \<open>Whether \<open>multiCompiler.plugin\<close> is there to be called.\<close>

fun has_plugin :: "multi_compiler \<Rightarrow> bool" where
  "has_plugin (WithCompilers inst compilers) = True"
| "has_plugin (OtherCompilers inst plugin elements) = plugin"
| "has_plugin (NoCompilers v) = False"

definition expected_both :: jsval where
  "expected_both =
     JSError ''Error'' ''Expected webpack compiler to contain both a `client` and `server` config''"

definition expected_server :: jsval where
  "expected_server = JSError ''Error'' ''Expected a webpack compiler named `server`''"

definition expected_client :: jsval where
  "expected_client = JSError ''Error'' ''Expected a webpack compiler named `client`''"

text \<open>
  The constructor. Installing the source-map support throws nothing and changes nothing
  the dispatcher reads; registering the \<open>done\<close> handler is the call
  \<open>multiCompiler.plugin('done', ...)\<close>, a \<open>TypeError\<close> when there is no such method.
\<close>

definition webpackHotServerMiddleware :: "multi_compiler \<Rightarrow> string option \<Rightarrow> jsval + dispatcher" where
  "webpackHotServerMiddleware multiCompiler given =
     (let opts = assign_options DEFAULTS given in
      if instanceof_MultiCompiler (js_not multiCompiler) then Inl expected_both
      else
        case findCompiler multiCompiler ''server'' of
          Inl e \<Rightarrow> Inl e
        | Inr server \<Rightarrow>
            (case findCompiler multiCompiler ''client'' of
               Inl e \<Rightarrow> Inl e
             | Inr client \<Rightarrow>
                 (case server of
                    None \<Rightarrow> Inl expected_server
                  | Some sc \<Rightarrow>
                      (case client of
                         None \<Rightarrow> Inl expected_client
                       | Some cc \<Rightarrow>
                           if has_plugin multiCompiler
                           then Inr \<lparr>serverCompiler = sc, options = opts,
                                     serverRenderer = Undefined, error = Bool False\<rparr>
                           else Inl (type_error ''multiCompiler.plugin is not a function'')))))"

subsection \<open>The \<open>done\<close> handler\<close>

text \<open>
  The body of the \<open>try\<close> block: the value assigned to \<open>serverRenderer\<close>, or the
  exception the \<open>catch\<close> receives. The callee is evaluated before its argument.
\<close>

definition try_load :: "world \<Rightarrow> nat \<Rightarrow> stats option \<Rightarrow> string \<Rightarrow> jsval + jsval" where
  "try_load w fs clientStats filename =
     (case readFileSync w fs filename of
        Inl e \<Rightarrow> Inl e
      | Inr data \<Rightarrow>
          (case requireFromString w data filename of
             Inl e \<Rightarrow> Inl e
           | Inr exports \<Rightarrow>
               (case clientStats of
                  None \<Rightarrow> Inl (type_error ''Cannot read property toJson of undefined'')
                | Some cs \<Rightarrow>
                    js_call w (interopRequireDefault exports) [js_of_stats_json (toJson cs)])))"

text \<open>
  A run of the handler ends by returning or by an exception that leaves it; either way
  the variables are as the run left them.
\<close>

datatype completion = Returns dispatcher | Throws jsval dispatcher

definition done_handler :: "world \<Rightarrow> dispatcher \<Rightarrow> multi_stats \<Rightarrow> completion" where
  "done_handler w d multiStats =
     (let clientStats = findStats multiStats ''client'';
          serverStats = findStats multiStats ''server''
      in case serverStats of
           None \<Rightarrow> Throws (type_error ''Cannot read property compilation of undefined'') d
         | Some ss \<Rightarrow>
             (case errors (compilation ss) of
                e # es \<Rightarrow> Returns (d\<lparr>error := e\<rparr>)
              | [] \<Rightarrow>
                  (let d1 = d\<lparr>error := Bool False\<rparr> in
                   case getChunkFilename w ss (outputPath (serverCompiler d1))
                          (chunkName (options d1)) of
                     Inl e \<Rightarrow> Throws e d1
                   | Inr filename \<Rightarrow>
                       (case try_load w (outputFs d1) clientStats filename of
                          Inr renderer \<Rightarrow> Returns (d1\<lparr>serverRenderer := renderer\<rparr>)
                        | Inl e \<Rightarrow> Returns (d1\<lparr>error := e\<rparr>)))))"

subsection \<open>The request handler\<close>

text \<open>
  What a request ends in: \<open>next(error)\<close>, the call \<open>serverRenderer(req, res, next)\<close> of
  a function, or the \<open>TypeError\<close> of calling a value that is none. The handler's first
  line logs \<open>req.url\<close>; \<open>req\<close> is the request object the HTTP server passes, and
  \<open>next\<close> its continuation, so neither the read nor \<open>next(error)\<close> throws.
\<close>

datatype response =
    NextCalled jsval
  | RendererCalled jsval "jsval list"
  | Thrown jsval

definition invoke :: "jsval \<Rightarrow> jsval list \<Rightarrow> response" where
  "invoke renderer args =
     (case renderer of
        Fun code env \<Rightarrow> RendererCalled renderer args
      | _ \<Rightarrow> Thrown (type_error ''serverRenderer is not a function''))"

definition middleware :: "dispatcher \<Rightarrow> jsval \<Rightarrow> jsval \<Rightarrow> jsval \<Rightarrow> response" where
  "middleware d req res next =
     (if truthy (error d) then NextCalled (error d)
      else invoke (serverRenderer d) [req, res, next])"

section \<open>The end-to-end scenario\<close>

text \<open>
  The scenario of the specification: a client unit whose manifest is
  \<open>{main: "main.js"}\<close>, a server unit whose manifest is
  \<open>{main: ["server.js", "server.js.map"]}\<close>, and an output filesystem holding a
  \<open>server.js\<close> that exports the factory
  \<open>(clientManifest) => (req, res, next) => res.end(JSON.stringify(clientManifest))\<close>.
\<close>

definition e2e_client :: stats where
  "e2e_client =
     \<lparr>compilation = \<lparr>name = Str ''client'', errors = []\<rparr>,
      toJson = \<lparr>assetsByChunkName = [(''main'', Single ''main.js'')], otherFields = []\<rparr>\<rparr>"

definition e2e_server :: "jsval list \<Rightarrow> stats" where
  "e2e_server errs =
     \<lparr>compilation = \<lparr>name = Str ''server'', errors = errs\<rparr>,
      toJson = \<lparr>assetsByChunkName = [(''main'', Multiple [''server.js'', ''server.js.map''])],
                otherFields = []\<rparr>\<rparr>"

definition e2e_stats :: "jsval list \<Rightarrow> multi_stats" where
  "e2e_stats errs = \<lparr>stats = [e2e_client, e2e_server errs]\<rparr>"

definition e2e_compilers :: multi_compiler where
  "e2e_compilers =
     WithCompilers True
       [\<lparr>compiler_name = Str ''client'', outputFileSystem = 1, outputPath = ''/public''\<rparr>,
        \<lparr>compiler_name = Str ''server'', outputFileSystem = 0, outputPath = ''/out''\<rparr>]"

definition e2e_source :: string where
  "e2e_source = ''module.exports = (clientManifest) => (req, res, next) => res.end(JSON.stringify(clientManifest));''"

text \<open>
  The factory is code 0 and the renderer it returns is code 1, closed over the factory's
  argument. Every other file is missing, and every other source text exports nothing.
\<close>

definition e2e_world :: world where
  "e2e_world =
     \<lparr>path_join2 = (\<lambda>dir file. if file = [] then dir else dir @ ''/'' @ file),
      readFileSync = (\<lambda>fs file.
        if fs = 0 \<and> file = ''/out/server.js'' then Inr e2e_source
        else Inl (JSError ''Error'' ''ENOENT'')),
      requireFromString = (\<lambda>source file.
        if source = e2e_source then Inr (Fun 0 []) else Inr (Obj [])),
      fun_body = (\<lambda>code env args.
        if code = 0 then Inr (Fun 1 (case args of [] \<Rightarrow> [Undefined] | a # rest \<Rightarrow> [a]))
        else Inr Undefined)\<rparr>"

text \<open>
  \<open>JSON.stringify\<close> on the values a manifest is made of: strings that need no escape,
  arrays and objects of such, booleans and \<open>null\<close>. \<open>None\<close> on any other value.
\<close>

definition plain_char :: "char \<Rightarrow> bool" where
  "plain_char c = (c \<noteq> CHR 0x22 \<and> c \<noteq> CHR 0x5C \<and> 32 \<le> (of_char c :: nat) \<and> (of_char c :: nat) < 127)"

definition quote :: "string \<Rightarrow> string option" where
  "quote s = (if list_all plain_char s then Some ([CHR 0x22] @ s @ [CHR 0x22]) else None)"

fun commas :: "string list \<Rightarrow> string" where
  "commas [] = []"
| "commas [x] = x"
| "commas (x # y # ys) = x @ '','' @ commas (y # ys)"

fun all_some :: "'a option list \<Rightarrow> 'a list option" where
  "all_some [] = Some []"
| "all_some (None # xs) = None"
| "all_some (Some x # xs) = (case all_some xs of None \<Rightarrow> None | Some ys \<Rightarrow> Some (x # ys))"

fun JSON_stringify :: "jsval \<Rightarrow> string option" where
  "JSON_stringify Null = Some ''null''"
| "JSON_stringify (Bool b) = Some (if b then ''true'' else ''false'')"
| "JSON_stringify (Str s) = quote s"
| "JSON_stringify (Arr xs) =
     (case all_some (map JSON_stringify xs) of
        None \<Rightarrow> None
      | Some ts \<Rightarrow> Some (''['' @ commas ts @ '']''))"
| "JSON_stringify (Obj ps) =
     (case all_some (map (\<lambda>(k, v).
             case (quote k, JSON_stringify v) of
               (Some qk, Some t) \<Rightarrow> Some (qk @ '':'' @ t)
             | _ \<Rightarrow> None) ps) of
        None \<Rightarrow> None
      | Some ts \<Rightarrow> Some (''{'' @ commas ts @ ''}''))"
| "JSON_stringify v = None"

text \<open>The body that the scenario's renderer ends the response with.\<close>

fun e2e_body :: "response \<Rightarrow> string option" where
  "e2e_body (RendererCalled (Fun code [clientManifest]) args) =
     (if code = 1 then JSON_stringify clientManifest else None)"
| "e2e_body r = None"

text \<open>The middleware as constructed for the scenario, and the renderer its build loads.\<close>

definition e2e_initial :: dispatcher where
  "e2e_initial =
     \<lparr>serverCompiler =
        \<lparr>compiler_name = Str ''server'', outputFileSystem = 0, outputPath = ''/out''\<rparr>,
      options = \<lparr>chunkName = ''main''\<rparr>, serverRenderer = Undefined, error = Bool False\<rparr>"

definition e2e_renderer :: jsval where
  "e2e_renderer = Fun 1 [Obj [(''assetsByChunkName'', Obj [(''main'', Str ''main.js'')])]]"

definition e2e_ready :: dispatcher where
  "e2e_ready = e2e_initial\<lparr>serverRenderer := e2e_renderer\<rparr>"

text \<open>A request: \<open>req\<close>, \<open>res\<close> and \<open>next\<close>.\<close>

definition e2e_req :: jsval where
  "e2e_req = Obj [(''url'', Str ''/'')]"

definition e2e_res :: jsval where
  "e2e_res = Obj []"

definition e2e_next :: jsval where
  "e2e_next = Fun 9 []"

text \<open>
  The body the specification expects of the scenario, \<open>{"main":"main.js"}\<close>, and the
  text of the whole stats object, \<open>{"assetsByChunkName":{"main":"main.js"}}\<close>.
\<close>

definition manifest_text :: string where
  "manifest_text =
     [CHR ''{'', CHR 0x22] @ ''main'' @ [CHR 0x22, CHR '':'', CHR 0x22] @ ''main.js'' @
     [CHR 0x22, CHR ''}'']"

definition stats_text :: string where
  "stats_text =
     [CHR ''{'', CHR 0x22] @ ''assetsByChunkName'' @ [CHR 0x22, CHR '':''] @ manifest_text @ ''}''"

text \<open>
  A server build that emits its bundle as \<open>server.bundle\<close> with a source map: no file
  of the chunk ends in \<open>.js\<close>.
\<close>

definition bundle_server :: stats where
  "bundle_server =
     \<lparr>compilation = \<lparr>name = Str ''server'', errors = []\<rparr>,
      toJson = \<lparr>assetsByChunkName =
                  [(''main'', Multiple [''server.bundle'', ''server.bundle.map''])],
                otherFields = []\<rparr>\<rparr>"

definition bundle_stats :: multi_stats where
  "bundle_stats = \<lparr>stats = [e2e_client, bundle_server]\<rparr>"

text \<open>
  The scenario after a rebuild: \<open>server.js\<close> now holds an ES module whose default
  export is the factory (code 2), and the renderer it returns is code 3.
\<close>

definition rebuilt_source :: string where
  "rebuilt_source = ''exports.__esModule = true; exports.default = (stats) => (req, res, next) => next();''"

definition rebuilt_world :: world where
  "rebuilt_world =
     \<lparr>path_join2 = (\<lambda>dir file. if file = [] then dir else dir @ ''/'' @ file),
      readFileSync = (\<lambda>fs file.
        if fs = 0 \<and> file = ''/out/server.js'' then Inr rebuilt_source
        else Inl (JSError ''Error'' ''ENOENT'')),
      requireFromString = (\<lambda>source file.
        if source = rebuilt_source
        then Inr (Obj [(''__esModule'', Bool True), (''default'', Fun 2 [])])
        else Inr (Obj [])),
      fun_body = (\<lambda>code env args.
        if code = 2 then Inr (Fun 3 (case args of [] \<Rightarrow> [Undefined] | a # rest \<Rightarrow> [a]))
        else Inr Undefined)\<rparr>"

definition rebuilt_renderer :: jsval where
  "rebuilt_renderer = Fun 3 [Obj [(''assetsByChunkName'', Obj [(''main'', Str ''main.js'')])]]"

text \<open>
  A server build whose only file is not on the output filesystem, and a world in which
  \<open>server.js\<close> holds a bundle that throws \<open>undefined\<close> when it is evaluated.
\<close>

definition gone_server :: stats where
  "gone_server =
     \<lparr>compilation = \<lparr>name = Str ''server'', errors = []\<rparr>,
      toJson = \<lparr>assetsByChunkName = [(''main'', Single ''gone.js'')], otherFields = []\<rparr>\<rparr>"

definition gone_stats :: multi_stats where
  "gone_stats = \<lparr>stats = [e2e_client, gone_server]\<rparr>"

definition throwing_source :: string where
  "throwing_source = ''throw undefined;''"

definition throwing_world :: world where
  "throwing_world =
     \<lparr>path_join2 = (\<lambda>dir file. if file = [] then dir else dir @ ''/'' @ file),
      readFileSync = (\<lambda>fs file.
        if fs = 0 \<and> file = ''/out/server.js'' then Inr throwing_source
        else Inl (JSError ''Error'' ''ENOENT'')),
      requireFromString = (\<lambda>source file.
        if source = throwing_source then Inl Undefined else Inr (Obj [])),
      fun_body = (\<lambda>code env args. Inr Undefined)\<rparr>"

section \<open>Entry-file resolution\<close>

lemma test_js_iff: "test_js s \<longleftrightarrow> (\<exists>stem. s = stem @ ''.js'')"
proof
  assume "test_js s"
  then have "drop (length s - 3) s = ''.js''"
    by (simp add: test_js_def)
  then have "s = take (length s - 3) s @ ''.js''"
    by (metis append_take_drop_id)
  then show "\<exists>stem. s = stem @ ''.js''" ..
next
  assume "\<exists>stem. s = stem @ ''.js''"
  then obtain stem where "s = stem @ ''.js''" ..
  then show "test_js s"
    by (simp add: test_js_def)
qed

lemma find_first:
  "\<forall>p\<in>set pre. \<not> P p \<Longrightarrow> P a \<Longrightarrow> find P (pre @ a # post) = Some a"
  by (induction pre) auto

lemma find_none: "\<forall>p\<in>set xs. \<not> P p \<Longrightarrow> find P xs = None"
  by (induction xs) auto

text \<open>
  Claim C6. Whatever the server manifest and the chunk name: when the manifest's value
  for the chunk is a single filename, that filename is joined with the output directory;
  when it is a list, the first entry that ends in \<open>.js\<close> is (every entry before it
  does not end in \<open>.js\<close>).
\<close>

theorem getChunkFilename_resolves:
  "(map_of (assetsByChunkName (toJson st)) chunk = Some (Single s) \<longrightarrow>
      getChunkFilename w st dir chunk = Inr (path_join2 w dir s)) \<and>
   (map_of (assetsByChunkName (toJson st)) chunk =
        Some (Multiple (pre @ (stem @ ''.js'') # post)) \<and>
      (\<forall>p\<in>set pre. \<forall>q. p \<noteq> q @ ''.js'') \<longrightarrow>
      getChunkFilename w st dir chunk = Inr (path_join2 w dir (stem @ ''.js'')))"
proof (intro conjI impI)
  assume "map_of (assetsByChunkName (toJson st)) chunk = Some (Single s)"
  then show "getChunkFilename w st dir chunk = Inr (path_join2 w dir s)"
    by (simp add: getChunkFilename_def member_of_def path_join_def)
next
  assume h: "map_of (assetsByChunkName (toJson st)) chunk =
        Some (Multiple (pre @ (stem @ ''.js'') # post)) \<and>
      (\<forall>p\<in>set pre. \<forall>q. p \<noteq> q @ ''.js'')"
  then have "\<forall>p\<in>set pre. \<not> test_js p"
    by (simp add: test_js_iff)
  moreover have "test_js (stem @ ''.js'')"
    by (simp add: test_js_iff)
  ultimately have "find test_js (pre @ (stem @ ''.js'') # post) = Some (stem @ ''.js'')"
    by (rule find_first)
  with h show "getChunkFilename w st dir chunk = Inr (path_join2 w dir (stem @ ''.js''))"
    by (simp add: getChunkFilename_def member_of_def path_join_def)
qed

theorem getChunkFilename_resolves_witness:
  "getChunkFilename e2e_world e2e_client ''/out'' ''main'' = Inr ''/out/main.js'' \<and>
   getChunkFilename e2e_world
       \<lparr>compilation = \<lparr>name = Str ''server'', errors = []\<rparr>,
        toJson = \<lparr>assetsByChunkName =
                   [(''main'', Multiple [''server.js.map'', ''server.js'', ''vendor.js''])],
                  otherFields = []\<rparr>\<rparr>
       ''/out'' ''main'' = Inr ''/out/server.js''"
proof -
  let ?srv = "\<lparr>compilation = \<lparr>name = Str ''server'', errors = []\<rparr>,
        toJson = \<lparr>assetsByChunkName =
                   [(''main'', Multiple [''server.js.map'', ''server.js'', ''vendor.js''])],
                  otherFields = []\<rparr>\<rparr>"
  have a: "map_of (assetsByChunkName (toJson e2e_client)) ''main'' = Some (Single ''main.js'')"
    by (simp add: e2e_client_def)
  have b: "map_of (assetsByChunkName (toJson ?srv)) ''main'' =
             Some (Multiple ([''server.js.map''] @ (''server'' @ ''.js'') # [''vendor.js'']))"
    by simp
  have "\<not> test_js ''server.js.map''"
    by (simp add: test_js_def)
  then have c: "\<forall>p\<in>set [''server.js.map'']. \<forall>q. p \<noteq> q @ ''.js''"
    by (simp add: test_js_iff)
  from a getChunkFilename_resolves
         [where st = e2e_client and chunk = "''main''" and s = "''main.js''"
            and w = e2e_world and dir = "''/out''"]
  have "getChunkFilename e2e_world e2e_client ''/out'' ''main'' =
          Inr (path_join2 e2e_world ''/out'' ''main.js'')"
    by blast
  moreover
  from b c getChunkFilename_resolves
         [where st = ?srv and chunk = "''main''" and pre = "[''server.js.map'']"
            and stem = "''server''" and post = "[''vendor.js'']"
            and w = e2e_world and dir = "''/out''"]
  have "getChunkFilename e2e_world ?srv ''/out'' ''main'' =
          Inr (path_join2 e2e_world ''/out'' (''server'' @ ''.js''))"
    by blast
  ultimately show ?thesis
    by (simp add: e2e_world_def)
qed

section \<open>Construction\<close>

lemma find_Some_mem: "find P xs = Some x \<Longrightarrow> P x \<and> x \<in> set xs"
  by (induction xs) (auto split: if_splits)

lemma find_exists: "\<exists>x\<in>set xs. P x \<Longrightarrow> \<exists>y. find P xs = Some y"
  by (induction xs) auto

lemma guard_never_true: "\<not> instanceof_MultiCompiler (js_not multiCompiler)"
  by (simp add: js_not_def)

lemma construct_WithCompilers:
  "webpackHotServerMiddleware (WithCompilers inst cs) given =
     (case find (\<lambda>c. compiler_name c = Str ''server'') cs of
        None \<Rightarrow> Inl expected_server
      | Some sc \<Rightarrow>
          (case find (\<lambda>c. compiler_name c = Str ''client'') cs of
             None \<Rightarrow> Inl expected_client
           | Some cc \<Rightarrow>
               Inr \<lparr>serverCompiler = sc, options = assign_options DEFAULTS given,
                    serverRenderer = Undefined, error = Bool False\<rparr>))"
  by (simp add: webpackHotServerMiddleware_def guard_never_true findCompiler_def Let_def
      split: option.splits)

lemma construct_OtherCompilers:
  "webpackHotServerMiddleware (OtherCompilers inst plugin elements) given =
     (case find_named elements ''server'' of
        Inl e \<Rightarrow> Inl e
      | Inr server \<Rightarrow>
          (case find_named elements ''client'' of
             Inl e \<Rightarrow> Inl e
           | Inr client \<Rightarrow>
               (case server of
                  None \<Rightarrow> Inl expected_server
                | Some sc \<Rightarrow>
                    (case client of
                       None \<Rightarrow> Inl expected_client
                     | Some cc \<Rightarrow>
                         if plugin
                         then Inr \<lparr>serverCompiler = sc, options = assign_options DEFAULTS given,
                                   serverRenderer = Undefined, error = Bool False\<rparr>
                         else Inl (type_error ''multiCompiler.plugin is not a function'')))))"
  by (simp add: webpackHotServerMiddleware_def guard_never_true findCompiler_def Let_def
      split: sum.splits option.splits)

lemma find_named_throws:
  "find_named elements n = Inl e \<Longrightarrow>
   e = type_error ''Cannot read property name of undefined'' \<and> None \<in> set elements"
  by (induction elements n rule: find_named.induct) (auto split: if_splits)

lemma find_named_not_both: "find_named elements n \<noteq> Inl expected_both"
proof
  assume "find_named elements n = Inl expected_both"
  then have "expected_both = type_error ''Cannot read property name of undefined''"
    by (simp add: find_named_throws)
  then show False
    by (simp add: expected_both_def type_error_def)
qed

lemma construct_NoCompilers:
  "webpackHotServerMiddleware (NoCompilers v) given =
     Inl (type_error ''Cannot read property find of undefined'')"
  by (simp add: webpackHotServerMiddleware_def guard_never_true findCompiler_def Let_def)

lemma e2e_constructed: "webpackHotServerMiddleware e2e_compilers None = Inr e2e_initial"
  by (simp add: construct_WithCompilers e2e_compilers_def assign_options_def DEFAULTS_def
      e2e_initial_def)

text \<open>
  Claim C7. Given a multi-compiler (constructed by \<open>MultiCompiler\<close> or not) with any list
  of compilers: when none is named \<open>server\<close> the constructor throws the missing-server
  error; when one is but none is named \<open>client\<close> it throws the missing-client error;
  when both are present it returns the middleware, which holds the first compiler named
  \<open>server\<close>, the chunk name given (\<open>main\<close> by default), no renderer and no error.
\<close>

theorem construction_needs_server_and_client:
  "((\<forall>c\<in>set cs. compiler_name c \<noteq> Str ''server'') \<longrightarrow>
      webpackHotServerMiddleware (WithCompilers inst cs) given = Inl expected_server) \<and>
   ((\<exists>c\<in>set cs. compiler_name c = Str ''server'') \<and>
    (\<forall>c\<in>set cs. compiler_name c \<noteq> Str ''client'') \<longrightarrow>
      webpackHotServerMiddleware (WithCompilers inst cs) given = Inl expected_client) \<and>
   ((\<exists>c\<in>set cs. compiler_name c = Str ''server'') \<and>
    (\<exists>c\<in>set cs. compiler_name c = Str ''client'') \<longrightarrow>
      (\<exists>d. webpackHotServerMiddleware (WithCompilers inst cs) given = Inr d \<and>
           serverCompiler d \<in> set cs \<and> compiler_name (serverCompiler d) = Str ''server'' \<and>
           chunkName (options d) = (case given of None \<Rightarrow> ''main'' | Some c \<Rightarrow> c) \<and>
           serverRenderer d = Undefined \<and> error d = Bool False))"
proof (intro conjI impI)
  assume "\<forall>c\<in>set cs. compiler_name c \<noteq> Str ''server''"
  then have "find (\<lambda>c. compiler_name c = Str ''server'') cs = None"
    by (simp add: find_None_iff)
  then show "webpackHotServerMiddleware (WithCompilers inst cs) given = Inl expected_server"
    by (simp add: construct_WithCompilers)
next
  assume h: "(\<exists>c\<in>set cs. compiler_name c = Str ''server'') \<and>
    (\<forall>c\<in>set cs. compiler_name c \<noteq> Str ''client'')"
  then obtain sc where "find (\<lambda>c. compiler_name c = Str ''server'') cs = Some sc"
    using find_exists [of cs "\<lambda>c. compiler_name c = Str ''server''"] by blast
  moreover from h have "find (\<lambda>c. compiler_name c = Str ''client'') cs = None"
    by (simp add: find_None_iff)
  ultimately show "webpackHotServerMiddleware (WithCompilers inst cs) given = Inl expected_client"
    by (simp add: construct_WithCompilers)
next
  assume h: "(\<exists>c\<in>set cs. compiler_name c = Str ''server'') \<and>
    (\<exists>c\<in>set cs. compiler_name c = Str ''client'')"
  then obtain sc where sc: "find (\<lambda>c. compiler_name c = Str ''server'') cs = Some sc"
    using find_exists [of cs "\<lambda>c. compiler_name c = Str ''server''"] by blast
  from h obtain cc where cc: "find (\<lambda>c. compiler_name c = Str ''client'') cs = Some cc"
    using find_exists [of cs "\<lambda>c. compiler_name c = Str ''client''"] by blast
  from sc have "compiler_name sc = Str ''server'' \<and> sc \<in> set cs"
    by (rule find_Some_mem)
  with sc cc show "\<exists>d. webpackHotServerMiddleware (WithCompilers inst cs) given = Inr d \<and>
           serverCompiler d \<in> set cs \<and> compiler_name (serverCompiler d) = Str ''server'' \<and>
           chunkName (options d) = (case given of None \<Rightarrow> ''main'' | Some c \<Rightarrow> c) \<and>
           serverRenderer d = Undefined \<and> error d = Bool False"
    by (simp add: construct_WithCompilers assign_options_def DEFAULTS_def split: option.splits)
qed

theorem construction_needs_server_and_client_witness:
  "webpackHotServerMiddleware
     (WithCompilers True
        [\<lparr>compiler_name = Str ''client'', outputFileSystem = 1, outputPath = ''/public''\<rparr>,
         \<lparr>compiler_name = Str ''worker'', outputFileSystem = 2, outputPath = ''/lib''\<rparr>])
     None = Inl expected_server \<and>
   webpackHotServerMiddleware
     (WithCompilers True
        [\<lparr>compiler_name = Str ''worker'', outputFileSystem = 2, outputPath = ''/lib''\<rparr>,
         \<lparr>compiler_name = Str ''server'', outputFileSystem = 0, outputPath = ''/out''\<rparr>])
     None = Inl expected_client \<and>
   (\<exists>d. webpackHotServerMiddleware e2e_compilers (Some ''app'') = Inr d \<and>
        compiler_name (serverCompiler d) = Str ''server'' \<and>
        chunkName (options d) = ''app'' \<and>
        serverRenderer d = Undefined \<and> error d = Bool False)"
proof -
  let ?client = "\<lparr>compiler_name = Str ''client'', outputFileSystem = 1, outputPath = ''/public''\<rparr>"
  let ?worker = "\<lparr>compiler_name = Str ''worker'', outputFileSystem = 2, outputPath = ''/lib''\<rparr>"
  let ?server = "\<lparr>compiler_name = Str ''server'', outputFileSystem = 0, outputPath = ''/out''\<rparr>"
  have a: "\<forall>c\<in>set [?client, ?worker]. compiler_name c \<noteq> Str ''server''"
    by simp
  have b: "(\<exists>c\<in>set [?worker, ?server]. compiler_name c = Str ''server'') \<and>
           (\<forall>c\<in>set [?worker, ?server]. compiler_name c \<noteq> Str ''client'')"
    by simp
  have c: "(\<exists>c\<in>set [?client, ?server]. compiler_name c = Str ''server'') \<and>
           (\<exists>c\<in>set [?client, ?server]. compiler_name c = Str ''client'')"
    by simp
  from a construction_needs_server_and_client [of "[?client, ?worker]" True None]
  have "webpackHotServerMiddleware (WithCompilers True [?client, ?worker]) None =
          Inl expected_server"
    by blast
  moreover
  from b construction_needs_server_and_client [of "[?worker, ?server]" True None]
  have "webpackHotServerMiddleware (WithCompilers True [?worker, ?server]) None =
          Inl expected_client"
    by blast
  moreover
  from c construction_needs_server_and_client [of "[?client, ?server]" True "Some ''app''"]
  have "\<exists>d. webpackHotServerMiddleware (WithCompilers True [?client, ?server]) (Some ''app'') =
               Inr d \<and>
             compiler_name (serverCompiler d) = Str ''server'' \<and>
             chunkName (options d) = ''app'' \<and>
             serverRenderer d = Undefined \<and> error d = Bool False"
    by auto
  ultimately show ?thesis
    by (simp add: e2e_compilers_def)
qed

text \<open>
  Claim C9, as the code has it. Whatever the constructor's argument, the guard
  \<open>!multiCompiler instanceof MultiCompiler\<close> is false and the error it guards is never
  thrown. The errors the constructor does throw are the missing-server and the
  missing-client error, and beside them only \<open>TypeError\<close>s of the runtime: of
  \<open>findCompiler\<close> when the argument has no \<open>compilers\<close> array or the search meets an
  element that is \<open>null\<close> or \<open>undefined\<close>, and of \<open>multiCompiler.plugin(...)\<close> when
  the argument has no such method. A build controller throws none of the latter.
\<close>

theorem guard_is_dead:
  "\<not> instanceof_MultiCompiler (js_not multiCompiler) \<and>
   webpackHotServerMiddleware multiCompiler given \<noteq> Inl expected_both \<and>
   (\<forall>e. webpackHotServerMiddleware multiCompiler given = Inl e \<longrightarrow>
      (case multiCompiler of
         WithCompilers inst cs \<Rightarrow> e = expected_server \<or> e = expected_client
       | OtherCompilers inst plugin elements \<Rightarrow>
           e = expected_server \<or> e = expected_client \<or>
           (e = type_error ''Cannot read property name of undefined'' \<and> None \<in> set elements) \<or>
           (e = type_error ''multiCompiler.plugin is not a function'' \<and> \<not> plugin)
       | NoCompilers v \<Rightarrow> e = type_error ''Cannot read property find of undefined''))"
proof (cases multiCompiler)
  case (WithCompilers inst cs)
  have "expected_server \<noteq> expected_both" "expected_client \<noteq> expected_both"
    by (simp_all add: expected_server_def expected_client_def expected_both_def)
  then show ?thesis
    unfolding WithCompilers
    by (auto simp: guard_never_true construct_WithCompilers split: option.splits)
next
  case (OtherCompilers inst plugin elements)
  have ne: "expected_server \<noteq> expected_both" "expected_client \<noteq> expected_both"
    "type_error msg \<noteq> expected_both" for msg
    by (simp_all add: expected_server_def expected_client_def expected_both_def type_error_def)
  have "webpackHotServerMiddleware (OtherCompilers inst plugin elements) given \<noteq>
          Inl expected_both"
    using ne
    by (auto simp: construct_OtherCompilers find_named_not_both
        split: sum.splits option.splits if_splits)
  moreover have "e = expected_server \<or> e = expected_client \<or>
      (e = type_error ''Cannot read property name of undefined'' \<and> None \<in> set elements) \<or>
      (e = type_error ''multiCompiler.plugin is not a function'' \<and> \<not> plugin)"
    if "webpackHotServerMiddleware (OtherCompilers inst plugin elements) given = Inl e" for e
    using that
    by (auto simp: construct_OtherCompilers split: sum.splits option.splits if_splits
        dest: find_named_throws)
  ultimately show ?thesis
    unfolding OtherCompilers by (simp add: guard_never_true)
next
  case (NoCompilers v)
  have "type_error ''Cannot read property find of undefined'' \<noteq> expected_both"
    by (simp add: type_error_def expected_both_def)
  then show ?thesis
    unfolding NoCompilers
    by (simp add: guard_never_true construct_NoCompilers)
qed

theorem guard_is_dead_witness:
  "\<not> instanceof_MultiCompiler (js_not (NoCompilers Undefined)) \<and>
   webpackHotServerMiddleware (NoCompilers Undefined) None \<noteq> Inl expected_both \<and>
   webpackHotServerMiddleware (NoCompilers Undefined) None =
     Inl (type_error ''Cannot read property find of undefined'') \<and>
   \<not> instanceof_MultiCompiler
       (js_not (WithCompilers False
          [\<lparr>compiler_name = Str ''server'', outputFileSystem = 0, outputPath = ''/out''\<rparr>])) \<and>
   webpackHotServerMiddleware
       (WithCompilers False
          [\<lparr>compiler_name = Str ''server'', outputFileSystem = 0, outputPath = ''/out''\<rparr>])
       None = Inl expected_client \<and>
   webpackHotServerMiddleware
       (OtherCompilers False False
          [Some \<lparr>compiler_name = Str ''server'', outputFileSystem = 0, outputPath = ''/out''\<rparr>,
           Some \<lparr>compiler_name = Str ''client'', outputFileSystem = 1, outputPath = ''/public''\<rparr>])
       None = Inl (type_error ''multiCompiler.plugin is not a function'') \<and>
   webpackHotServerMiddleware
       (OtherCompilers True True
          [None,
           Some \<lparr>compiler_name = Str ''server'', outputFileSystem = 0, outputPath = ''/out''\<rparr>])
       None = Inl (type_error ''Cannot read property name of undefined'')"
proof -
  let ?server = "\<lparr>compiler_name = Str ''server'', outputFileSystem = 0, outputPath = ''/out''\<rparr>"
  let ?client = "\<lparr>compiler_name = Str ''client'', outputFileSystem = 1, outputPath = ''/public''\<rparr>"
  let ?mc = "WithCompilers False [?server]"
  let ?plain = "OtherCompilers False False [Some ?server, Some ?client]"
  let ?holed = "OtherCompilers True True [None, Some ?server]"
  have ne: "type_error msg \<noteq> expected_server" "type_error msg \<noteq> expected_client"
    "expected_server \<noteq> expected_client" "expected_client \<noteq> expected_server" for msg
    by (simp_all add: type_error_def expected_server_def expected_client_def)
  have msgs: "type_error ''multiCompiler.plugin is not a function'' \<noteq>
      type_error ''Cannot read property name of undefined''"
    by (simp add: type_error_def)
  obtain e where e: "webpackHotServerMiddleware (NoCompilers Undefined) None = Inl e"
    by (simp add: construct_NoCompilers)
  with guard_is_dead [of "NoCompilers Undefined" None]
  have "e = type_error ''Cannot read property find of undefined''"
    by simp
  with e have a: "webpackHotServerMiddleware (NoCompilers Undefined) None =
                    Inl (type_error ''Cannot read property find of undefined'')"
    by simp
  obtain e' where e': "webpackHotServerMiddleware ?mc None = Inl e'"
    by (simp add: construct_WithCompilers)
  with guard_is_dead [of ?mc None]
  have "e' = expected_server \<or> e' = expected_client"
    by simp
  moreover have "webpackHotServerMiddleware ?mc None \<noteq> Inl expected_server"
    by (simp add: construct_WithCompilers ne)
  ultimately have b: "webpackHotServerMiddleware ?mc None = Inl expected_client"
    using e' by auto
  obtain p where p: "webpackHotServerMiddleware ?plain None = Inl p"
    by (simp add: construct_OtherCompilers)
  with guard_is_dead [of ?plain None]
  have "p = expected_server \<or> p = expected_client \<or>
        p = type_error ''multiCompiler.plugin is not a function''"
    by simp
  moreover have "webpackHotServerMiddleware ?plain None \<noteq> Inl expected_server"
    "webpackHotServerMiddleware ?plain None \<noteq> Inl expected_client"
    by (simp_all add: construct_OtherCompilers ne)
  ultimately have c: "webpackHotServerMiddleware ?plain None =
      Inl (type_error ''multiCompiler.plugin is not a function'')"
    using p by auto
  obtain h where h: "webpackHotServerMiddleware ?holed None = Inl h"
    by (simp add: construct_OtherCompilers)
  with guard_is_dead [of ?holed None]
  have "h = expected_server \<or> h = expected_client \<or>
        h = type_error ''Cannot read property name of undefined''"
    by simp
  moreover have "webpackHotServerMiddleware ?holed None \<noteq> Inl expected_server"
    "webpackHotServerMiddleware ?holed None \<noteq> Inl expected_client"
    by (simp_all add: construct_OtherCompilers ne)
  ultimately have d: "webpackHotServerMiddleware ?holed None =
      Inl (type_error ''Cannot read property name of undefined'')"
    using h by auto
  from a b c d guard_is_dead [of "NoCompilers Undefined" None] guard_is_dead [of ?mc None]
  show ?thesis
    by simp
qed

theorem only_named_errors_counterexample:
  "webpackHotServerMiddleware (NoCompilers (Obj [(''name'', Str ''server'')])) None =
     Inl (type_error ''Cannot read property find of undefined'') \<and>
   type_error ''Cannot read property find of undefined'' \<noteq> expected_server \<and>
   type_error ''Cannot read property find of undefined'' \<noteq> expected_client"
  by (simp add: construct_NoCompilers type_error_def expected_server_def expected_client_def)

section \<open>The \<open>done\<close> handler, path by path\<close>

lemma done_handler_no_server:
  "findStats ms ''server'' = None \<Longrightarrow>
   done_handler w d ms =
     Throws (type_error ''Cannot read property compilation of undefined'') d"
  by (simp add: done_handler_def)

lemma done_handler_build_errors:
  "findStats ms ''server'' = Some ss \<Longrightarrow> errors (compilation ss) = e # es \<Longrightarrow>
   done_handler w d ms = Returns (d\<lparr>error := e\<rparr>)"
  by (simp add: done_handler_def)

lemma done_handler_escapes:
  "findStats ms ''server'' = Some ss \<Longrightarrow> errors (compilation ss) = [] \<Longrightarrow>
   getChunkFilename w ss (outputPath (serverCompiler d)) (chunkName (options d)) = Inl e \<Longrightarrow>
   done_handler w d ms = Throws e (d\<lparr>error := Bool False\<rparr>)"
  by (simp add: done_handler_def)

lemma done_handler_caught:
  "findStats ms ''server'' = Some ss \<Longrightarrow> errors (compilation ss) = [] \<Longrightarrow>
   getChunkFilename w ss (outputPath (serverCompiler d)) (chunkName (options d)) = Inr fname \<Longrightarrow>
   try_load w (outputFs d) (findStats ms ''client'') fname = Inl e \<Longrightarrow>
   done_handler w d ms = Returns (d\<lparr>error := e\<rparr>)"
  by (simp add: done_handler_def outputFs_def)

lemma done_handler_loaded:
  "findStats ms ''server'' = Some ss \<Longrightarrow> errors (compilation ss) = [] \<Longrightarrow>
   getChunkFilename w ss (outputPath (serverCompiler d)) (chunkName (options d)) = Inr fname \<Longrightarrow>
   try_load w (outputFs d) (findStats ms ''client'') fname = Inr r \<Longrightarrow>
   done_handler w d ms = Returns (d\<lparr>serverRenderer := r, error := Bool False\<rparr>)"
  by (simp add: done_handler_def outputFs_def)

lemma getChunkFilename_no_js:
  "map_of (assetsByChunkName (toJson st)) chunk = Some (Multiple xs) \<Longrightarrow>
   \<forall>x\<in>set xs. \<not> test_js x \<Longrightarrow>
   getChunkFilename w st dir chunk =
     Inl (type_error ''Path must be a string. Received undefined'')"
  by (simp add: getChunkFilename_def member_of_def path_join_def find_none)

lemma getChunkFilename_absent:
  "map_of (assetsByChunkName (toJson st)) chunk = None \<Longrightarrow>
   chunk \<notin> set object_prototype_names \<Longrightarrow>
   getChunkFilename w st dir chunk = Inr (path_join2 w dir '''')"
  by (simp add: getChunkFilename_def member_of_def path_join_def)

lemma getChunkFilename_inherited:
  "map_of (assetsByChunkName (toJson st)) chunk = None \<Longrightarrow>
   chunk \<in> set object_prototype_names \<Longrightarrow>
   getChunkFilename w st dir chunk =
     Inl (type_error ''Path must be a string. Received a function'')"
  by (simp add: getChunkFilename_def member_of_def)

lemma try_load_read_throws:
  "readFileSync w fs fname = Inl e \<Longrightarrow> try_load w fs clientStats fname = Inl e"
  by (simp add: try_load_def)

lemma try_load_require_throws:
  "readFileSync w fs fname = Inr data \<Longrightarrow> requireFromString w data fname = Inl e \<Longrightarrow>
   try_load w fs clientStats fname = Inl e"
  by (simp add: try_load_def)

lemma try_load_no_client:
  "readFileSync w fs fname = Inr data \<Longrightarrow> requireFromString w data fname = Inr exports \<Longrightarrow>
   try_load w fs None fname = Inl (type_error ''Cannot read property toJson of undefined'')"
  by (simp add: try_load_def)

lemma try_load_factory:
  "readFileSync w fs fname = Inr data \<Longrightarrow> requireFromString w data fname = Inr exports \<Longrightarrow>
   try_load w fs (Some cs) fname =
     js_call w (interopRequireDefault exports) [js_of_stats_json (toJson cs)]"
  by (simp add: try_load_def)

subsection \<open>The scenario's builds\<close>

lemma e2e_findStats_server: "findStats (e2e_stats errs) ''server'' = Some (e2e_server errs)"
  by (simp add: findStats_def e2e_stats_def e2e_client_def e2e_server_def)

lemma e2e_findStats_client: "findStats (e2e_stats errs) ''client'' = Some e2e_client"
  by (simp add: findStats_def e2e_stats_def e2e_client_def)

lemma e2e_errors: "errors (compilation (e2e_server errs)) = errs"
  by (simp add: e2e_server_def)

lemma e2e_filename:
  "getChunkFilename e2e_world (e2e_server errs) ''/out'' ''main'' = Inr ''/out/server.js''"
  by (simp add: getChunkFilename_def member_of_def e2e_server_def path_join_def e2e_world_def
      test_js_def)

lemma rebuilt_filename:
  "getChunkFilename rebuilt_world (e2e_server errs) ''/out'' ''main'' = Inr ''/out/server.js''"
  by (simp add: getChunkFilename_def member_of_def e2e_server_def path_join_def
      rebuilt_world_def test_js_def)

lemma e2e_try_load:
  "try_load e2e_world 0 (Some e2e_client) ''/out/server.js'' = Inr e2e_renderer"
  by (simp add: try_load_def e2e_world_def interopRequireDefault_def js_call_def
      js_of_stats_json_def js_of_manifest_def e2e_client_def e2e_renderer_def)

lemma rebuilt_try_load:
  "try_load rebuilt_world 0 (Some e2e_client) ''/out/server.js'' = Inr rebuilt_renderer"
  by (simp add: try_load_def rebuilt_world_def interopRequireDefault_def js_call_def
      js_of_stats_json_def js_of_manifest_def e2e_client_def rebuilt_renderer_def)

lemma e2e_fields:
  "outputPath (serverCompiler (e2e_initial\<lparr>serverRenderer := r, error := x\<rparr>)) = ''/out''"
  "chunkName (options (e2e_initial\<lparr>serverRenderer := r, error := x\<rparr>)) = ''main''"
  "outputFs (e2e_initial\<lparr>serverRenderer := r, error := x\<rparr>) = 0"
  by (simp_all add: e2e_initial_def outputFs_def)

lemma e2e_build:
  "done_handler e2e_world (e2e_initial\<lparr>serverRenderer := r, error := x\<rparr>) (e2e_stats []) =
     Returns e2e_ready"
proof -
  let ?d = "e2e_initial\<lparr>serverRenderer := r, error := x\<rparr>"
  have a: "findStats (e2e_stats []) ''server'' = Some (e2e_server [])"
    by (rule e2e_findStats_server)
  have b: "errors (compilation (e2e_server [])) = []"
    by (rule e2e_errors)
  have c: "getChunkFilename e2e_world (e2e_server []) (outputPath (serverCompiler ?d))
             (chunkName (options ?d)) = Inr ''/out/server.js''"
    by (simp only: e2e_fields e2e_filename)
  have d: "try_load e2e_world (outputFs ?d) (findStats (e2e_stats []) ''client'')
             ''/out/server.js'' = Inr e2e_renderer"
    by (simp only: e2e_fields e2e_findStats_client e2e_try_load)
  have "done_handler e2e_world ?d (e2e_stats []) =
          Returns (?d\<lparr>serverRenderer := e2e_renderer, error := Bool False\<rparr>)"
    using a b c d by (rule done_handler_loaded)
  then show ?thesis
    by (simp add: e2e_ready_def e2e_initial_def)
qed

lemma e2e_first_build: "done_handler e2e_world e2e_initial (e2e_stats []) = Returns e2e_ready"
proof -
  have "done_handler e2e_world (e2e_initial\<lparr>serverRenderer := Undefined, error := Bool False\<rparr>)
          (e2e_stats []) = Returns e2e_ready"
    by (rule e2e_build)
  moreover have "e2e_initial\<lparr>serverRenderer := Undefined, error := Bool False\<rparr> = e2e_initial"
    by (simp add: e2e_initial_def)
  ultimately show ?thesis
    by simp
qed

lemma e2e_failed_build:
  "done_handler e2e_world d (e2e_stats (e # es)) = Returns (d\<lparr>error := e\<rparr>)"
  using e2e_findStats_server e2e_errors by (rule done_handler_build_errors)

lemma e2e_request:
  "\<not> truthy x \<Longrightarrow>
   middleware (e2e_ready\<lparr>error := x\<rparr>) e2e_req e2e_res e2e_next =
     RendererCalled e2e_renderer [e2e_req, e2e_res, e2e_next]"
  by (simp add: middleware_def invoke_def e2e_ready_def e2e_renderer_def)

section \<open>Requests after a failed build\<close>

text \<open>
  Claim C10. When the server build has errors and the first of them is falsy (the empty
  string, \<open>0\<close>, \<open>null\<close>, ...), the handler stores it in \<open>error\<close>, and a request
  that follows is not answered by \<open>next(error)\<close>: the handler goes on to call
  \<open>serverRenderer\<close>, the renderer that was there before the build.
\<close>

theorem falsy_error_reaches_renderer:
  assumes "findStats ms ''server'' = Some ss"
      and "errors (compilation ss) = e # es"
      and "\<not> truthy e"
    shows "done_handler w d ms = Returns (d\<lparr>error := e\<rparr>) \<and>
           middleware (d\<lparr>error := e\<rparr>) req res next =
             invoke (serverRenderer d) [req, res, next] \<and>
           middleware (d\<lparr>error := e\<rparr>) req res next \<noteq> NextCalled e"
proof -
  from assms(1,2) have "done_handler w d ms = Returns (d\<lparr>error := e\<rparr>)"
    by (rule done_handler_build_errors)
  moreover from assms(3)
  have m: "middleware (d\<lparr>error := e\<rparr>) req res next =
             invoke (serverRenderer d) [req, res, next]"
    by (simp add: middleware_def)
  moreover have "invoke (serverRenderer d) [req, res, next] \<noteq> NextCalled e"
    by (simp add: invoke_def split: jsval.splits)
  ultimately show ?thesis
    by simp
qed

theorem falsy_error_reaches_renderer_witness:
  "\<not> truthy (Str '''') \<and> \<not> truthy (Num 0) \<and> \<not> truthy Null \<and>
   done_handler e2e_world e2e_ready (e2e_stats [Num 0, Str ''boom'']) =
     Returns (e2e_ready\<lparr>error := Num 0\<rparr>) \<and>
   middleware (e2e_ready\<lparr>error := Num 0\<rparr>) e2e_req e2e_res e2e_next =
     RendererCalled e2e_renderer [e2e_req, e2e_res, e2e_next]"
proof -
  have f: "\<not> truthy (Num 0)"
    by simp
  have "invoke (serverRenderer e2e_ready) [e2e_req, e2e_res, e2e_next] =
          RendererCalled e2e_renderer [e2e_req, e2e_res, e2e_next]"
    by (simp add: invoke_def e2e_ready_def e2e_renderer_def)
  with f falsy_error_reaches_renderer
         [of "e2e_stats [Num 0, Str ''boom'']" "e2e_server [Num 0, Str ''boom'']"
            "Num 0" "[Str ''boom'']" e2e_world e2e_ready e2e_req e2e_res e2e_next]
  show ?thesis
    by (simp add: e2e_findStats_server e2e_errors)
qed

text \<open>
  A build with server errors: the handler sets \<open>error\<close> to the first of them and
  returns, leaving \<open>serverRenderer\<close> as it was. When that first error is truthy, every
  request made before the next build completes is answered by \<open>next\<close> with that error,
  and no renderer is called.
\<close>

lemma truthy_first_error_is_forwarded:
  assumes "findStats ms ''server'' = Some ss"
      and "errors (compilation ss) = e # es"
    shows "done_handler w d ms = Returns (d\<lparr>error := e\<rparr>) \<and>
           serverRenderer (d\<lparr>error := e\<rparr>) = serverRenderer d \<and>
           (truthy e \<longrightarrow>
              (\<forall>req res next. middleware (d\<lparr>error := e\<rparr>) req res next = NextCalled e))"
proof -
  from assms have "done_handler w d ms = Returns (d\<lparr>error := e\<rparr>)"
    by (rule done_handler_build_errors)
  then show ?thesis
    by (simp add: middleware_def)
qed

text \<open>
  Claim C2, at an input where the code departs from it. The server build fails after an
  earlier build has loaded a renderer. With the first error \<open>'boom'\<close> the request is
  answered by \<open>next('boom')\<close>, as the claim says. With the first error the empty string
  the handler stores it just the same, but the request handler's \<open>if (error)\<close> does not
  see it: the request is not answered by \<open>next\<close>, it is handed to the renderer of the
  earlier build.
\<close>

theorem empty_first_error_is_not_forwarded:
  "done_handler e2e_world e2e_ready (e2e_stats [Str ''boom'']) =
     Returns (e2e_ready\<lparr>error := Str ''boom''\<rparr>) \<and>
   middleware (e2e_ready\<lparr>error := Str ''boom''\<rparr>) e2e_req e2e_res e2e_next =
     NextCalled (Str ''boom'') \<and>
   done_handler e2e_world e2e_ready (e2e_stats [Str '''']) =
     Returns (e2e_ready\<lparr>error := Str ''''\<rparr>) \<and>
   middleware (e2e_ready\<lparr>error := Str ''''\<rparr>) e2e_req e2e_res e2e_next =
     RendererCalled e2e_renderer [e2e_req, e2e_res, e2e_next] \<and>
   middleware (e2e_ready\<lparr>error := Str ''''\<rparr>) e2e_req e2e_res e2e_next \<noteq>
     NextCalled (Str '''')"
proof -
  have t: "truthy (Str ''boom'')"
    by simp
  with truthy_first_error_is_forwarded
         [where ms = "e2e_stats [Str ''boom'']" and ss = "e2e_server [Str ''boom'']"
            and e = "Str ''boom''" and es = "[]" and w = e2e_world and d = e2e_ready]
  have "done_handler e2e_world e2e_ready (e2e_stats [Str ''boom'']) =
          Returns (e2e_ready\<lparr>error := Str ''boom''\<rparr>) \<and>
        middleware (e2e_ready\<lparr>error := Str ''boom''\<rparr>) e2e_req e2e_res e2e_next =
          NextCalled (Str ''boom'')"
    by (simp add: e2e_findStats_server e2e_errors)
  then show ?thesis
    by (simp add: e2e_failed_build e2e_request)
qed

section \<open>Exceptions while loading\<close>

lemma bundle_throws:
  "getChunkFilename e2e_world bundle_server ''/out'' ''main'' =
     Inl (type_error ''Path must be a string. Received undefined'')"
proof -
  have "map_of (assetsByChunkName (toJson bundle_server)) ''main'' =
          Some (Multiple [''server.bundle'', ''server.bundle.map''])"
    by (simp add: bundle_server_def)
  moreover have "\<forall>x\<in>set [''server.bundle'', ''server.bundle.map'']. \<not> test_js x"
    by (simp add: test_js_def)
  ultimately show ?thesis
    by (rule getChunkFilename_no_js)
qed

text \<open>
  Claim C1, at an input where the code departs from it. The server build has no errors and
  its chunk \<open>main\<close> emitted \<open>server.bundle\<close> and \<open>server.bundle.map\<close>. Resolving the
  filename throws (\<open>find\<close> yields \<open>undefined\<close>, which \<open>path.join\<close> refuses) before
  the \<open>try\<close> block is entered: the exception leaves the handler, \<open>error\<close> is not set
  to it but stays cleared, and the next request is handed to the renderer of the older
  build.
\<close>

theorem filename_exception_escapes:
  "done_handler e2e_world (e2e_ready\<lparr>error := Str ''boom''\<rparr>) bundle_stats =
     Throws (type_error ''Path must be a string. Received undefined'')
       (e2e_ready\<lparr>error := Bool False\<rparr>) \<and>
   middleware (e2e_ready\<lparr>error := Bool False\<rparr>) e2e_req e2e_res e2e_next =
     RendererCalled e2e_renderer [e2e_req, e2e_res, e2e_next]"
proof -
  let ?d = "e2e_ready\<lparr>error := Str ''boom''\<rparr>"
  have a: "findStats bundle_stats ''server'' = Some bundle_server"
    by (simp add: findStats_def bundle_stats_def bundle_server_def e2e_client_def)
  have b: "errors (compilation bundle_server) = []"
    by (simp add: bundle_server_def)
  have c: "getChunkFilename e2e_world bundle_server (outputPath (serverCompiler ?d))
             (chunkName (options ?d)) =
           Inl (type_error ''Path must be a string. Received undefined'')"
    by (simp add: e2e_ready_def e2e_initial_def bundle_throws)
  have "done_handler e2e_world ?d bundle_stats =
          Throws (type_error ''Path must be a string. Received undefined'')
            (?d\<lparr>error := Bool False\<rparr>)"
    using a b c by (rule done_handler_escapes)
  then show ?thesis
    by (simp add: e2e_request)
qed

section \<open>Consecutive builds\<close>

text \<open>
  Claim C8. Two builds in a row, both without server errors, both with a filename that
  resolves and a bundle that loads; the \<open>try\<close> block of the first yields \<open>r1\<close> and
  that of the second \<open>r2\<close>, the value its factory returned. After the second build
  \<open>serverRenderer\<close> is \<open>r2\<close> and \<open>error\<close> is cleared, so every request is the call of
  \<open>r2\<close>, and none is a call of \<open>r1\<close>.
\<close>

theorem second_build_replaces_renderer:
  assumes "findStats ms1 ''server'' = Some ss1"
      and "errors (compilation ss1) = []"
      and "getChunkFilename w1 ss1 (outputPath (serverCompiler d)) (chunkName (options d)) =
             Inr f1"
      and "try_load w1 (outputFs d) (findStats ms1 ''client'') f1 = Inr r1"
      and "findStats ms2 ''server'' = Some ss2"
      and "errors (compilation ss2) = []"
      and "getChunkFilename w2 ss2 (outputPath (serverCompiler d)) (chunkName (options d)) =
             Inr f2"
      and "try_load w2 (outputFs d) (findStats ms2 ''client'') f2 = Inr r2"
    shows "done_handler w1 d ms1 = Returns (d\<lparr>serverRenderer := r1, error := Bool False\<rparr>) \<and>
           done_handler w2 (d\<lparr>serverRenderer := r1, error := Bool False\<rparr>) ms2 =
             Returns (d\<lparr>serverRenderer := r2, error := Bool False\<rparr>) \<and>
           (\<forall>req res next.
              middleware (d\<lparr>serverRenderer := r2, error := Bool False\<rparr>) req res next =
                invoke r2 [req, res, next] \<and>
              (r1 \<noteq> r2 \<longrightarrow>
                 middleware (d\<lparr>serverRenderer := r2, error := Bool False\<rparr>) req res next \<noteq>
                   RendererCalled r1 [req, res, next]) \<and>
              (\<forall>code env. r2 = Fun code env \<longrightarrow>
                 middleware (d\<lparr>serverRenderer := r2, error := Bool False\<rparr>) req res next =
                   RendererCalled r2 [req, res, next]))"
proof -
  let ?d1 = "d\<lparr>serverRenderer := r1, error := Bool False\<rparr>"
  let ?d2 = "d\<lparr>serverRenderer := r2, error := Bool False\<rparr>"
  have first: "done_handler w1 d ms1 = Returns ?d1"
    using assms(1-4) by (rule done_handler_loaded)
  have "getChunkFilename w2 ss2 (outputPath (serverCompiler ?d1)) (chunkName (options ?d1)) =
          Inr f2"
    using assms(7) by simp
  moreover have "try_load w2 (outputFs ?d1) (findStats ms2 ''client'') f2 = Inr r2"
    using assms(8) by (simp add: outputFs_def)
  ultimately have "done_handler w2 ?d1 ms2 = Returns (?d1\<lparr>serverRenderer := r2, error := Bool False\<rparr>)"
    using assms(5,6) by (intro done_handler_loaded)
  then have second: "done_handler w2 ?d1 ms2 = Returns ?d2"
    by simp
  have req: "middleware ?d2 req res nxt = invoke r2 [req, res, nxt]" for req res nxt
    by (simp add: middleware_def)
  have other: "invoke r2 args \<noteq> RendererCalled r1 args" if "r1 \<noteq> r2" for args
    using that by (auto simp: invoke_def split: jsval.splits)
  have same: "invoke r2 args = RendererCalled r2 args" if "r2 = Fun code env" for args code env
    using that by (simp add: invoke_def)
  show ?thesis
  proof (intro conjI allI impI)
    show "done_handler w1 d ms1 = Returns ?d1"
      by (rule first)
    show "done_handler w2 ?d1 ms2 = Returns ?d2"
      by (rule second)
  next
    fix req res nxt
    show "middleware ?d2 req res nxt = invoke r2 [req, res, nxt]"
      by (rule req)
  next
    fix req res nxt
    assume "r1 \<noteq> r2"
    then have "invoke r2 [req, res, nxt] \<noteq> RendererCalled r1 [req, res, nxt]"
      by (rule other)
    then show "middleware ?d2 req res nxt \<noteq> RendererCalled r1 [req, res, nxt]"
      by (simp only: req not_False_eq_True)
  next
    fix req res nxt code env
    assume "r2 = Fun code env"
    then have "invoke r2 [req, res, nxt] = RendererCalled r2 [req, res, nxt]"
      by (rule same)
    with req show "middleware ?d2 req res nxt = RendererCalled r2 [req, res, nxt]"
      by (rule trans)
  qed
qed

theorem second_build_replaces_renderer_witness:
  "done_handler e2e_world e2e_initial (e2e_stats []) = Returns e2e_ready \<and>
   done_handler rebuilt_world e2e_ready (e2e_stats []) =
     Returns (e2e_initial\<lparr>serverRenderer := rebuilt_renderer\<rparr>) \<and>
   middleware (e2e_initial\<lparr>serverRenderer := rebuilt_renderer\<rparr>) e2e_req e2e_res e2e_next =
     RendererCalled rebuilt_renderer [e2e_req, e2e_res, e2e_next] \<and>
   middleware (e2e_initial\<lparr>serverRenderer := rebuilt_renderer\<rparr>) e2e_req e2e_res e2e_next \<noteq>
     RendererCalled e2e_renderer [e2e_req, e2e_res, e2e_next]"
proof -
  have fields: "outputPath (serverCompiler e2e_initial) = ''/out''"
    "chunkName (options e2e_initial) = ''main''" "outputFs e2e_initial = 0"
    by (simp_all add: e2e_initial_def outputFs_def)
  have a: "getChunkFilename e2e_world (e2e_server []) (outputPath (serverCompiler e2e_initial))
             (chunkName (options e2e_initial)) = Inr ''/out/server.js''"
    by (simp only: fields e2e_filename)
  have b: "try_load e2e_world (outputFs e2e_initial) (findStats (e2e_stats []) ''client'')
             ''/out/server.js'' = Inr e2e_renderer"
    by (simp only: fields e2e_findStats_client e2e_try_load)
  have c: "getChunkFilename rebuilt_world (e2e_server []) (outputPath (serverCompiler e2e_initial))
             (chunkName (options e2e_initial)) = Inr ''/out/server.js''"
    by (simp only: fields rebuilt_filename)
  have d: "try_load rebuilt_world (outputFs e2e_initial) (findStats (e2e_stats []) ''client'')
             ''/out/server.js'' = Inr rebuilt_renderer"
    by (simp only: fields e2e_findStats_client rebuilt_try_load)
  have ne: "e2e_renderer \<noteq> rebuilt_renderer"
    by (simp add: e2e_renderer_def rebuilt_renderer_def)
  have st: "e2e_initial\<lparr>serverRenderer := e2e_renderer, error := Bool False\<rparr> = e2e_ready"
    "e2e_initial\<lparr>serverRenderer := rebuilt_renderer, error := Bool False\<rparr> =
       e2e_initial\<lparr>serverRenderer := rebuilt_renderer\<rparr>"
    by (simp_all add: e2e_ready_def e2e_initial_def)
  from second_build_replaces_renderer
         [OF e2e_findStats_server e2e_errors a b e2e_findStats_server e2e_errors c d] ne
  show ?thesis
    unfolding st by (simp add: rebuilt_renderer_def invoke_def)
qed

section \<open>The state a build leaves\<close>

text \<open>A run of the handler that returns took one of three paths.\<close>

lemma done_handler_Returns_cases:
  assumes "done_handler w d ms = Returns d'"
  obtains
    (build_failed) ss e es where
      "findStats ms ''server'' = Some ss" "errors (compilation ss) = e # es"
      "d' = d\<lparr>error := e\<rparr>"
  | (load_failed) ss fname e where
      "findStats ms ''server'' = Some ss" "errors (compilation ss) = []"
      "getChunkFilename w ss (outputPath (serverCompiler d)) (chunkName (options d)) = Inr fname"
      "try_load w (outputFs d) (findStats ms ''client'') fname = Inl e"
      "d' = d\<lparr>error := e\<rparr>"
  | (loaded) ss fname r where
      "findStats ms ''server'' = Some ss" "errors (compilation ss) = []"
      "getChunkFilename w ss (outputPath (serverCompiler d)) (chunkName (options d)) = Inr fname"
      "try_load w (outputFs d) (findStats ms ''client'') fname = Inr r"
      "d' = d\<lparr>serverRenderer := r, error := Bool False\<rparr>"
proof (cases "findStats ms ''server''")
  case None
  with assms show ?thesis
    by (simp add: done_handler_no_server)
next
  case (Some ss)
  show ?thesis
  proof (cases "errors (compilation ss)")
    case (Cons e es)
    with Some assms have "d' = d\<lparr>error := e\<rparr>"
      by (simp add: done_handler_build_errors)
    with Some Cons show ?thesis
      by (rule build_failed)
  next
    case Nil
    show ?thesis
    proof (cases "getChunkFilename w ss (outputPath (serverCompiler d)) (chunkName (options d))")
      case (Inl e)
      with Some Nil assms show ?thesis
        by (simp add: done_handler_escapes)
    next
      case (Inr fname)
      show ?thesis
      proof (cases "try_load w (outputFs d) (findStats ms ''client'') fname")
        case (Inl e)
        with Some Nil Inr assms have "d' = d\<lparr>error := e\<rparr>"
          by (simp add: done_handler_caught)
        with Some Nil Inr Inl show ?thesis
          by (rule load_failed)
      next
        case r: (Inr r)
        with Some Nil Inr assms have "d' = d\<lparr>serverRenderer := r, error := Bool False\<rparr>"
          by (simp add: done_handler_loaded)
        with Some Nil Inr r show ?thesis
          by (rule loaded)
      qed
    qed
  qed
qed

lemma bundle_build_escapes:
  "done_handler e2e_world (e2e_ready\<lparr>error := x\<rparr>) bundle_stats =
     Throws (type_error ''Path must be a string. Received undefined'')
       (e2e_ready\<lparr>error := Bool False\<rparr>)"
proof -
  let ?d = "e2e_ready\<lparr>error := x\<rparr>"
  have a: "findStats bundle_stats ''server'' = Some bundle_server"
    by (simp add: findStats_def bundle_stats_def bundle_server_def e2e_client_def)
  have b: "errors (compilation bundle_server) = []"
    by (simp add: bundle_server_def)
  have c: "getChunkFilename e2e_world bundle_server (outputPath (serverCompiler ?d))
             (chunkName (options ?d)) =
           Inl (type_error ''Path must be a string. Received undefined'')"
    by (simp add: e2e_ready_def e2e_initial_def bundle_throws)
  have "done_handler e2e_world ?d bundle_stats =
          Throws (type_error ''Path must be a string. Received undefined'')
            (?d\<lparr>error := Bool False\<rparr>)"
    using a b c by (rule done_handler_escapes)
  then show ?thesis
    by simp
qed

lemma e2e_ready_cleared: "e2e_ready\<lparr>error := Bool False\<rparr> = e2e_ready"
  by (simp add: e2e_ready_def e2e_initial_def)

lemma e2e_ready_fields:
  "outputPath (serverCompiler e2e_ready) = ''/out''"
  "chunkName (options e2e_ready) = ''main''"
  "outputFs (e2e_ready\<lparr>error := x\<rparr>) = 0"
  by (simp_all add: e2e_ready_def e2e_initial_def outputFs_def)

text \<open>
  Claim C3, at inputs where the code departs from it. A renderer is loaded and no error
  is recorded. Then a build completes whose server chunk emitted no \<open>.js\<close> file:
  resolving the filename throws, outside the \<open>try\<close> block and after \<open>error\<close> was
  cleared, so the run ends with no error recorded and with the renderer of the older build,
  which goes on answering requests. The same state is reached when the new bundle throws
  \<open>undefined\<close> as it is evaluated: the \<open>catch\<close> stores the thrown value in
  \<open>error\<close>, where the request handler's \<open>if (error)\<close> does not see it.
\<close>

theorem failed_build_leaves_old_renderer_and_no_error:
  "done_handler e2e_world e2e_ready bundle_stats =
     Throws (type_error ''Path must be a string. Received undefined'') e2e_ready \<and>
   error e2e_ready = Bool False \<and>
   serverRenderer e2e_ready = e2e_renderer \<and>
   middleware e2e_ready e2e_req e2e_res e2e_next =
     RendererCalled e2e_renderer [e2e_req, e2e_res, e2e_next] \<and>
   done_handler throwing_world e2e_ready (e2e_stats []) =
     Returns (e2e_ready\<lparr>error := Undefined\<rparr>) \<and>
   serverRenderer (e2e_ready\<lparr>error := Undefined\<rparr>) = e2e_renderer \<and>
   middleware (e2e_ready\<lparr>error := Undefined\<rparr>) e2e_req e2e_res e2e_next =
     RendererCalled e2e_renderer [e2e_req, e2e_res, e2e_next]"
proof -
  have escaped: "done_handler e2e_world e2e_ready bundle_stats =
      Throws (type_error ''Path must be a string. Received undefined'') e2e_ready"
    using bundle_build_escapes [of "Bool False"] by (simp only: e2e_ready_cleared)
  have state: "error e2e_ready = Bool False" "serverRenderer e2e_ready = e2e_renderer"
    by (simp_all add: e2e_ready_def e2e_initial_def)
  have served: "middleware e2e_ready e2e_req e2e_res e2e_next =
      RendererCalled e2e_renderer [e2e_req, e2e_res, e2e_next]"
    using e2e_request [of "Bool False"] by (simp add: e2e_ready_cleared)
  have a: "getChunkFilename throwing_world (e2e_server [])
             (outputPath (serverCompiler (e2e_ready\<lparr>error := Bool False\<rparr>)))
             (chunkName (options (e2e_ready\<lparr>error := Bool False\<rparr>))) = Inr ''/out/server.js''"
    by (simp add: e2e_ready_fields getChunkFilename_def member_of_def e2e_server_def
        path_join_def throwing_world_def test_js_def)
  have "readFileSync throwing_world 0 ''/out/server.js'' = Inr throwing_source"
    by (simp add: throwing_world_def)
  moreover have "requireFromString throwing_world throwing_source ''/out/server.js'' =
      Inl Undefined"
    by (simp add: throwing_world_def)
  ultimately have "try_load throwing_world 0 (findStats (e2e_stats []) ''client'')
      ''/out/server.js'' = Inl Undefined"
    by (rule try_load_require_throws)
  then have b: "try_load throwing_world (outputFs (e2e_ready\<lparr>error := Bool False\<rparr>))
      (findStats (e2e_stats []) ''client'') ''/out/server.js'' = Inl Undefined"
    by (simp only: e2e_ready_fields)
  have "done_handler throwing_world (e2e_ready\<lparr>error := Bool False\<rparr>) (e2e_stats []) =
          Returns (e2e_ready\<lparr>error := Bool False\<rparr>\<lparr>error := Undefined\<rparr>)"
    using e2e_findStats_server e2e_errors a b by (rule done_handler_caught)
  then have thrown: "done_handler throwing_world e2e_ready (e2e_stats []) =
      Returns (e2e_ready\<lparr>error := Undefined\<rparr>)"
    by (simp add: e2e_ready_cleared)
  have "middleware (e2e_ready\<lparr>error := Undefined\<rparr>) e2e_req e2e_res e2e_next =
      RendererCalled e2e_renderer [e2e_req, e2e_res, e2e_next]"
    by (rule e2e_request) simp
  with escaped state served thrown show ?thesis
    by simp
qed

text \<open>
  Claim C4, at an input where the code departs from it. A renderer is loaded, a later
  build has failed, and \<open>error\<close> holds its first error: requests are answered by
  \<open>next\<close> with it. Then a build completes whose server chunk emitted no \<open>.js\<close> file.
  The handler clears \<open>error\<close>, and resolving the filename throws before
  \<open>serverRenderer\<close> is assigned: of the pair only \<open>error\<close> was updated, and the
  requests that follow see it, answered now by the renderer of the older build. A failure
  inside the \<open>try\<close> block (here: the bundle's file is missing) does leave a complete
  state, the exception in \<open>error\<close> and \<open>serverRenderer\<close> untouched.
\<close>

theorem partial_update_is_observed:
  "middleware (e2e_ready\<lparr>error := Str ''Module not found''\<rparr>) e2e_req e2e_res e2e_next =
     NextCalled (Str ''Module not found'') \<and>
   done_handler e2e_world (e2e_ready\<lparr>error := Str ''Module not found''\<rparr>) bundle_stats =
     Throws (type_error ''Path must be a string. Received undefined'')
       (e2e_ready\<lparr>error := Bool False\<rparr>) \<and>
   serverRenderer (e2e_ready\<lparr>error := Bool False\<rparr>) =
     serverRenderer (e2e_ready\<lparr>error := Str ''Module not found''\<rparr>) \<and>
   middleware (e2e_ready\<lparr>error := Bool False\<rparr>) e2e_req e2e_res e2e_next =
     RendererCalled e2e_renderer [e2e_req, e2e_res, e2e_next] \<and>
   done_handler e2e_world (e2e_ready\<lparr>error := Str ''Module not found''\<rparr>) gone_stats =
     Returns (e2e_ready\<lparr>error := JSError ''Error'' ''ENOENT''\<rparr>)"
proof -
  let ?d = "e2e_ready\<lparr>error := Str ''Module not found''\<rparr>"
  have before: "middleware ?d e2e_req e2e_res e2e_next = NextCalled (Str ''Module not found'')"
    by (simp add: middleware_def)
  have escaped: "done_handler e2e_world ?d bundle_stats =
      Throws (type_error ''Path must be a string. Received undefined'')
        (e2e_ready\<lparr>error := Bool False\<rparr>)"
    by (rule bundle_build_escapes)
  have after: "middleware (e2e_ready\<lparr>error := Bool False\<rparr>) e2e_req e2e_res e2e_next =
      RendererCalled e2e_renderer [e2e_req, e2e_res, e2e_next]"
    by (rule e2e_request) simp
  have s: "findStats gone_stats ''server'' = Some gone_server"
    by (simp add: findStats_def gone_stats_def gone_server_def e2e_client_def)
  have n: "errors (compilation gone_server) = []"
    by (simp add: gone_server_def)
  have f: "getChunkFilename e2e_world gone_server (outputPath (serverCompiler ?d))
             (chunkName (options ?d)) = Inr ''/out/gone.js''"
    by (simp add: e2e_ready_fields getChunkFilename_def member_of_def gone_server_def
        path_join_def e2e_world_def)
  have "readFileSync e2e_world 0 ''/out/gone.js'' = Inl (JSError ''Error'' ''ENOENT'')"
    by (simp add: e2e_world_def)
  then have "try_load e2e_world 0 (findStats gone_stats ''client'') ''/out/gone.js'' =
      Inl (JSError ''Error'' ''ENOENT'')"
    by (rule try_load_read_throws)
  then have l: "try_load e2e_world (outputFs ?d) (findStats gone_stats ''client'')
      ''/out/gone.js'' = Inl (JSError ''Error'' ''ENOENT'')"
    by (simp only: e2e_ready_fields)
  have "done_handler e2e_world ?d gone_stats =
          Returns (?d\<lparr>error := JSError ''Error'' ''ENOENT''\<rparr>)"
    using s n f l by (rule done_handler_caught)
  with before escaped after show ?thesis
    by simp
qed

section \<open>What the factory is given\<close>

text \<open>
  Claim C5, as the code has it. When the server build has no errors, its filename
  resolves, the file is read and the module evaluates, the handler calls the module's
  unwrapped export with one argument, the whole of \<open>clientStats.toJson()\<close>; the asset
  manifest is that object's field \<open>assetsByChunkName\<close>. What the call returns becomes
  \<open>serverRenderer\<close> and \<open>error\<close> is cleared; what it throws becomes \<open>error\<close>.
\<close>

theorem factory_receives_client_stats:
  assumes "findStats ms ''server'' = Some ss"
      and "errors (compilation ss) = []"
      and "getChunkFilename w ss (outputPath (serverCompiler d)) (chunkName (options d)) =
             Inr fname"
      and "readFileSync w (outputFs d) fname = Inr data"
      and "requireFromString w data fname = Inr exports"
      and "findStats ms ''client'' = Some cs"
    shows "done_handler w d ms =
             (case js_call w (interopRequireDefault exports) [js_of_stats_json (toJson cs)] of
                Inl e \<Rightarrow> Returns (d\<lparr>error := e\<rparr>)
              | Inr r \<Rightarrow> Returns (d\<lparr>serverRenderer := r, error := Bool False\<rparr>)) \<and>
           get_prop (js_of_stats_json (toJson cs)) ''assetsByChunkName'' =
             js_of_manifest (assetsByChunkName (toJson cs))"
proof -
  let ?call = "js_call w (interopRequireDefault exports) [js_of_stats_json (toJson cs)]"
  from assms(4-6) have load: "try_load w (outputFs d) (findStats ms ''client'') fname = ?call"
    by (simp add: try_load_factory)
  have "done_handler w d ms =
          (case ?call of
             Inl e \<Rightarrow> Returns (d\<lparr>error := e\<rparr>)
           | Inr r \<Rightarrow> Returns (d\<lparr>serverRenderer := r, error := Bool False\<rparr>))"
  proof (cases ?call)
    case (Inl e)
    with load have "try_load w (outputFs d) (findStats ms ''client'') fname = Inl e"
      by simp
    with assms(1-3) have "done_handler w d ms = Returns (d\<lparr>error := e\<rparr>)"
      by (rule done_handler_caught)
    with Inl show ?thesis
      by simp
  next
    case (Inr r)
    with load have "try_load w (outputFs d) (findStats ms ''client'') fname = Inr r"
      by simp
    with assms(1-3)
    have "done_handler w d ms = Returns (d\<lparr>serverRenderer := r, error := Bool False\<rparr>)"
      by (rule done_handler_loaded)
    with Inr show ?thesis
      by simp
  qed
  then show ?thesis
    by (simp add: js_of_stats_json_def)
qed

theorem factory_receives_client_stats_witness:
  "done_handler e2e_world e2e_initial (e2e_stats []) =
     Returns (e2e_initial\<lparr>serverRenderer := Fun 1 [js_of_stats_json (toJson e2e_client)],
                          error := Bool False\<rparr>) \<and>
   get_prop (js_of_stats_json (toJson e2e_client)) ''assetsByChunkName'' =
     Obj [(''main'', Str ''main.js'')]"
proof -
  have fields: "outputPath (serverCompiler e2e_initial) = ''/out''"
    "chunkName (options e2e_initial) = ''main''" "outputFs e2e_initial = 0"
    by (simp_all add: e2e_initial_def outputFs_def)
  have a: "getChunkFilename e2e_world (e2e_server []) (outputPath (serverCompiler e2e_initial))
             (chunkName (options e2e_initial)) = Inr ''/out/server.js''"
    by (simp only: fields e2e_filename)
  have b: "readFileSync e2e_world (outputFs e2e_initial) ''/out/server.js'' = Inr e2e_source"
    by (simp add: fields e2e_world_def)
  have c: "requireFromString e2e_world e2e_source ''/out/server.js'' = Inr (Fun 0 [])"
    by (simp add: e2e_world_def)
  have call: "js_call e2e_world (interopRequireDefault (Fun 0 []))
                [js_of_stats_json (toJson e2e_client)] =
              Inr (Fun 1 [js_of_stats_json (toJson e2e_client)])"
    by (simp add: js_call_def interopRequireDefault_def e2e_world_def)
  have m: "js_of_manifest (assetsByChunkName (toJson e2e_client)) = Obj [(''main'', Str ''main.js'')]"
    by (simp add: js_of_manifest_def e2e_client_def)
  from factory_receives_client_stats
         [OF e2e_findStats_server e2e_errors a b c e2e_findStats_client]
  show ?thesis
    by (simp only: call m sum.case)
qed

theorem factory_receives_client_stats_counterexample:
  "webpackHotServerMiddleware e2e_compilers None = Inr e2e_initial \<and>
   done_handler e2e_world e2e_initial (e2e_stats []) = Returns e2e_ready \<and>
   serverRenderer e2e_ready = Fun 1 [js_of_stats_json (toJson e2e_client)] \<and>
   js_of_stats_json (toJson e2e_client) \<noteq>
     js_of_manifest (assetsByChunkName (toJson e2e_client)) \<and>
   e2e_body (middleware e2e_ready e2e_req e2e_res e2e_next) = Some stats_text \<and>
   stats_text \<noteq> manifest_text"
proof -
  have "serverRenderer e2e_ready = Fun 1 [js_of_stats_json (toJson e2e_client)]"
    by (simp add: e2e_ready_def e2e_renderer_def js_of_stats_json_def js_of_manifest_def
        e2e_client_def)
  moreover have "js_of_stats_json (toJson e2e_client) \<noteq>
      js_of_manifest (assetsByChunkName (toJson e2e_client))"
    by (simp add: js_of_stats_json_def js_of_manifest_def e2e_client_def)
  moreover have "middleware e2e_ready e2e_req e2e_res e2e_next =
      RendererCalled e2e_renderer [e2e_req, e2e_res, e2e_next]"
    by (simp add: middleware_def invoke_def e2e_ready_def e2e_initial_def e2e_renderer_def)
  moreover have "e2e_body (RendererCalled e2e_renderer [e2e_req, e2e_res, e2e_next]) =
      Some stats_text"
    by (simp add: e2e_renderer_def quote_def plain_char_def stats_text_def manifest_text_def)
  moreover have "stats_text \<noteq> manifest_text"
    by (simp add: stats_text_def manifest_text_def)
  ultimately show ?thesis
    by (simp add: e2e_constructed e2e_first_build)
qed

end
